theory Spec2Isabelle
  imports Complex_Main "HOL-Library.Word"
begin

unbundle bit_operations_syntax

section \<open>Values shared by the handlers\<close>

text \<open>
  JSON values as the handlers pass them to \<^verbatim>\<open>res.status(..).json(..)\<close>. An object keeps
  its fields in the order the source writes them.
\<close>

datatype json = JNull | JBool bool | JNum int | JStr string | JObj "(string \<times> json) list"

record http_response =
  status :: nat
  body :: json

datatype cookie_op = SetCookie string string | ClearCookie string

text \<open>
  A value read from a JSON object that may be absent: \<^verbatim>\<open>undefined\<close>, \<^verbatim>\<open>null\<close> or a
  string. JavaScript's \<^verbatim>\<open>!==\<close> tells the first two apart.
\<close>

datatype jsopt = Undefined | Null | Str string

text \<open>Errors the handlers catch; each names the library call that throws it.\<close>

datatype exn =
    SyntaxError
  | InvalidIV
  | InvalidAuthTagLength
  | UnableToAuthenticate
  | JsonWebTokenError
  | TokenExpiredError
  | CastError

text \<open>Truthiness of an optional string: \<^verbatim>\<open>!s\<close> holds for an absent and for an empty one.\<close>

definition falsy :: "string option \<Rightarrow> bool" where
  "falsy s = (case s of None \<Rightarrow> True | Some v \<Rightarrow> v = [])"

text \<open>Decimal rendering of a non-negative integer, as a template literal prints it.\<close>

function showNat :: "nat \<Rightarrow> string" where
  "showNat n =
     (if n < 10 then [''0123456789'' ! n]
      else showNat (n div 10) @ [''0123456789'' ! (n mod 10)])"
  by pat_completeness auto
termination
  by (relation "measure (\<lambda>n. n)") auto

declare showNat.simps [simp del]

text \<open>\<^verbatim>\<open>String.prototype.toLowerCase\<close> on the ASCII letters, the characters of an email address.\<close>

definition toLowerCase :: "string \<Rightarrow> string" where
  "toLowerCase s =
     map (\<lambda>c. let n = (of_char c :: nat) in if 65 \<le> n \<and> n \<le> 90 then char_of (n + 32) else c) s"

section \<open>Account documents and their collection\<close>

text \<open>
  The fields of a SuperAdmin (or User) document that the authentication code reads or
  writes. Dates are milliseconds since the epoch, \<^verbatim>\<open>null\<close> is \<open>None\<close>.
\<close>

record account =
  doc_id :: string
  userName :: string
  email :: string
  password :: string
  isActive :: bool
  lastLogin :: "int option"
  loginAttempts :: int
  lockUntil :: "int option"
  sessionId :: "string option"

text \<open>
  A collection is the list of its documents. \<^verbatim>\<open>findOne({email})\<close> and \<^verbatim>\<open>findById\<close>
  return the first match; \<^verbatim>\<open>doc.save()\<close> writes the document back under its \<^verbatim>\<open>_id\<close>;
  \<^verbatim>\<open>findByIdAndUpdate(id, {sessionId})\<close> sets that one field. Storage failures are not
  modelled.
\<close>

definition findOne :: "account list \<Rightarrow> string \<Rightarrow> account option" where
  "findOne db e = find (\<lambda>a. email a = e) db"

definition findById :: "account list \<Rightarrow> string \<Rightarrow> account option" where
  "findById db i = find (\<lambda>a. doc_id a = i) db"

definition save :: "account list \<Rightarrow> account \<Rightarrow> account list" where
  "save db a = map (\<lambda>x. if doc_id x = doc_id a then a else x) db"

definition findByIdAndUpdate_sessionId :: "account list \<Rightarrow> string \<Rightarrow> string \<Rightarrow> account list" where
  "findByIdAndUpdate_sessionId db i s =
     map (\<lambda>x. if doc_id x = i then x\<lparr>sessionId := Some s\<rparr> else x) db"

section \<open>Buffers: hexadecimal and UTF-8\<close>

type_synonym byte = "8 word"

text \<open>A JavaScript string is a sequence of UTF-16 code units.\<close>

type_synonym jsstring = "16 word list"

definition hexDigit :: "nat \<Rightarrow> char" where
  "hexDigit n = ''0123456789abcdef'' ! n"

text \<open>\<^verbatim>\<open>buf.toString("hex")\<close>: two lower-case digits for each byte.\<close>

definition toHex :: "byte list \<Rightarrow> string" where
  "toHex bs = concat (map (\<lambda>b. [hexDigit (unat b div 16), hexDigit (unat b mod 16)]) bs)"

definition unhex :: "char \<Rightarrow> nat option" where
  "unhex c =
     (let n = (of_char c :: nat) in
      if 48 \<le> n \<and> n \<le> 57 then Some (n - 48)
      else if 97 \<le> n \<and> n \<le> 102 then Some (n - 87)
      else if 65 \<le> n \<and> n \<le> 70 then Some (n - 55)
      else None)"

text \<open>
  \<^verbatim>\<open>Buffer.from(s, "hex")\<close>: digits are read in pairs, either case; decoding stops at the
  first pair that is not two hexadecimal digits, and a trailing single digit is dropped.
\<close>

fun fromHex :: "string \<Rightarrow> byte list" where
  "fromHex (a # b # rest) =
     (case unhex a of
        None \<Rightarrow> []
      | Some h \<Rightarrow>
          (case unhex b of
             None \<Rightarrow> []
           | Some l \<Rightarrow> of_nat (16 * h + l) # fromHex rest))"
| "fromHex _ = []"

text \<open>
  UTF-8 bytes of a code point. Encoding a string pairs a high surrogate with the low
  surrogate that follows it; a surrogate left alone is written as U+FFFD.
\<close>

definition utf8_of_cp :: "nat \<Rightarrow> byte list" where
  "utf8_of_cp c =
     (if c < 0x80 then [of_nat c]
      else if c < 0x800 then [of_nat (0xC0 + c div 64), of_nat (0x80 + c mod 64)]
      else if c < 0x10000 then
        [of_nat (0xE0 + c div 4096), of_nat (0x80 + c div 64 mod 64), of_nat (0x80 + c mod 64)]
      else
        [of_nat (0xF0 + c div 262144), of_nat (0x80 + c div 4096 mod 64),
         of_nat (0x80 + c div 64 mod 64), of_nat (0x80 + c mod 64)])"

definition isHigh :: "16 word \<Rightarrow> bool" where
  "isHigh u = (0xD800 \<le> unat u \<and> unat u < 0xDC00)"

definition isLow :: "16 word \<Rightarrow> bool" where
  "isLow u = (0xDC00 \<le> unat u \<and> unat u < 0xE000)"

definition pair_cp :: "16 word \<Rightarrow> 16 word \<Rightarrow> nat" where
  "pair_cp u v = 0x10000 + (unat u - 0xD800) * 1024 + (unat v - 0xDC00)"

fun utf8_encode :: "jsstring \<Rightarrow> byte list" where
  "utf8_encode [] = []"
| "utf8_encode [u] =
     (if isHigh u \<or> isLow u then utf8_of_cp 0xFFFD else utf8_of_cp (unat u))"
| "utf8_encode (u # v # vs) =
     (if isHigh u \<and> isLow v then utf8_of_cp (pair_cp u v) @ utf8_encode vs
      else if isHigh u \<or> isLow u then utf8_of_cp 0xFFFD @ utf8_encode (v # vs)
      else utf8_of_cp (unat u) @ utf8_encode (v # vs))"

text \<open>UTF-16 code units of a code point.\<close>

definition utf16_of_cp :: "nat \<Rightarrow> jsstring" where
  "utf16_of_cp c =
     (if c < 0x10000 then [of_nat c]
      else [of_nat (0xD800 + (c - 0x10000) div 1024), of_nat (0xDC00 + (c - 0x10000) mod 1024)])"

definition inRange :: "nat \<Rightarrow> nat \<Rightarrow> byte \<Rightarrow> bool" where
  "inRange lo hi b = (lo \<le> unat b \<and> unat b \<le> hi)"

text \<open>
  \<^verbatim>\<open>buf.toString("utf8")\<close>: a well-formed sequence gives its code point; an ill-formed
  one gives U+FFFD for the bytes read so far, and decoding resumes at the byte that did
  not fit.
\<close>

fun utf8_decode :: "byte list \<Rightarrow> jsstring" where
  "utf8_decode [] = []"
| "utf8_decode (b # bs) =
     (if unat b < 0x80 then of_nat (unat b) # utf8_decode bs
      else if 0xC2 \<le> unat b \<and> unat b \<le> 0xDF then
        (case bs of
           [] \<Rightarrow> [0xFFFD]
         | c1 # r1 \<Rightarrow>
             if inRange 0x80 0xBF c1
             then utf16_of_cp ((unat b - 0xC0) * 64 + (unat c1 - 0x80)) @ utf8_decode r1
             else 0xFFFD # utf8_decode bs)
      else if 0xE0 \<le> unat b \<and> unat b \<le> 0xEF then
        (case bs of
           [] \<Rightarrow> [0xFFFD]
         | c1 # r1 \<Rightarrow>
             if inRange (if unat b = 0xE0 then 0xA0 else 0x80) (if unat b = 0xED then 0x9F else 0xBF) c1
             then
               (case r1 of
                  [] \<Rightarrow> [0xFFFD]
                | c2 # r2 \<Rightarrow>
                    if inRange 0x80 0xBF c2
                    then utf16_of_cp ((unat b - 0xE0) * 4096 + (unat c1 - 0x80) * 64 + (unat c2 - 0x80))
                           @ utf8_decode r2
                    else 0xFFFD # utf8_decode r1)
             else 0xFFFD # utf8_decode bs)
      else if 0xF0 \<le> unat b \<and> unat b \<le> 0xF4 then
        (case bs of
           [] \<Rightarrow> [0xFFFD]
         | c1 # r1 \<Rightarrow>
             if inRange (if unat b = 0xF0 then 0x90 else 0x80) (if unat b = 0xF4 then 0x8F else 0xBF) c1
             then
               (case r1 of
                  [] \<Rightarrow> [0xFFFD]
                | c2 # r2 \<Rightarrow>
                    if inRange 0x80 0xBF c2
                    then
                      (case r2 of
                         [] \<Rightarrow> [0xFFFD]
                       | c3 # r3 \<Rightarrow>
                           if inRange 0x80 0xBF c3
                           then utf16_of_cp ((unat b - 0xF0) * 262144 + (unat c1 - 0x80) * 4096
                                             + (unat c2 - 0x80) * 64 + (unat c3 - 0x80))
                                  @ utf8_decode r3
                           else 0xFFFD # utf8_decode r2)
                    else 0xFFFD # utf8_decode r1)
             else 0xFFFD # utf8_decode bs)
      else 0xFFFD # utf8_decode bs)"


section \<open>Process environment and third-party libraries\<close>

record envelope =
  env_iv :: string
  env_ciphertext :: string
  env_authTag :: string

text \<open>
  The value \<^verbatim>\<open>JSON.parse\<close> returns for a transported token: a falsy value (\<^verbatim>\<open>null\<close>,
  \<^verbatim>\<open>false\<close>, \<^verbatim>\<open>0\<close>, the empty string) or an object with the three string fields that
  \<^verbatim>\<open>decryptToken\<close> declares for its argument.
\<close>

datatype parsed = Falsy | Envelope envelope

text \<open>The claims of a verified JSON Web Token, as the middleware reads them.\<close>

record claims =
  c_role :: "string option"
  c_user_id :: "string option"
  c_user_email :: "string option"
  c_sessionId :: jsopt
  c_iat :: "int option"
  c_exp :: "int option"

text \<open>
  The secrets of the process environment and the library functions the source calls,
  none of which is code of this repository. They are parameters of the model:
  \<^item> \<open>aes_keystream key iv i\<close> is byte \<open>i\<close> of the AES-256 counter-mode key stream of
    \<^verbatim>\<open>aes-256-gcm\<close>, and \<open>gcm_tag key iv c\<close> the 128-bit tag of ciphertext \<open>c\<close>;
  \<^item> \<open>jwt_encode\<close> and \<open>jwt_decode\<close> are the HS256 compact serialisation of
    \<^verbatim>\<open>jsonwebtoken\<close> and its signature check (\<open>None\<close> when it throws);
  \<^item> \<open>json_b64_encode e\<close> is \<^verbatim>\<open>Buffer.from(JSON.stringify(e)).toString("base64url")\<close>
    and \<open>json_b64_decode s\<close> is \<^verbatim>\<open>JSON.parse(Buffer.from(s, "base64url").toString())\<close>
    (\<open>None\<close> when it throws);
  \<^item> \<open>bcrypt_compare\<close> is \<^verbatim>\<open>bcrypt.compare\<close>, \<open>castObjectId\<close> tells whether Mongoose
    can cast a string to an \<^verbatim>\<open>ObjectId\<close>, and \<open>error_message\<close> is the \<^verbatim>\<open>message\<close> of
    a thrown error.

  \<open>ENCRYPTION_KEY\<close> is taken to be a key that \<^verbatim>\<open>createCipheriv\<close> accepts (32 bytes, as
  the source's comment says), and the store, \<^verbatim>\<open>bcrypt\<close> and the signing call are taken not
  to throw: the \<^verbatim>\<open>catch\<close> block of a sign-in, which answers 500, is not reached.
\<close>

record platform =
  ENCRYPTION_KEY :: "byte list"
  JWT_SECRET :: string
  aes_keystream :: "byte list \<Rightarrow> byte list \<Rightarrow> nat \<Rightarrow> byte"
  gcm_tag :: "byte list \<Rightarrow> byte list \<Rightarrow> byte list \<Rightarrow> 128 word"
  jwt_encode :: "string \<Rightarrow> claims \<Rightarrow> jsstring"
  jwt_decode :: "string \<Rightarrow> jsstring \<Rightarrow> claims option"
  json_b64_encode :: "envelope \<Rightarrow> string"
  json_b64_decode :: "string \<Rightarrow> parsed option"
  bcrypt_compare :: "string \<Rightarrow> string \<Rightarrow> bool"
  castObjectId :: "string \<Rightarrow> bool"
  error_message :: "exn \<Rightarrow> string"

section \<open>The crypto envelope (auth.middleware.js)\<close>

text \<open>Counter mode: byte \<open>i\<close> of the data is combined with byte \<open>i\<close> of the key stream.\<close>

fun xor_stream :: "(nat \<Rightarrow> byte) \<Rightarrow> nat \<Rightarrow> byte list \<Rightarrow> byte list" where
  "xor_stream ks i [] = []"
| "xor_stream ks i (b # bs) = (b XOR ks i) # xor_stream ks (Suc i) bs"

text \<open>The sixteen bytes of a tag, most significant first.\<close>

definition tag_bytes :: "128 word \<Rightarrow> byte list" where
  "tag_bytes t = map (\<lambda>i. ucast (drop_bit (8 * (15 - i)) t)) [0..<16]"

text \<open>
  \<^verbatim>\<open>encryptToken\<close>; \<open>iv\<close> is the value of \<^verbatim>\<open>crypto.randomBytes(16)\<close>.
\<close>

definition encryptToken :: "platform \<Rightarrow> byte list \<Rightarrow> jsstring \<Rightarrow> envelope" where
  "encryptToken P iv plaintext =
     (let encrypted = xor_stream (aes_keystream P (ENCRYPTION_KEY P) iv) 0 (utf8_encode plaintext);
          authTag = tag_bytes (gcm_tag P (ENCRYPTION_KEY P) iv encrypted)
      in \<lparr>env_iv = toHex iv, env_ciphertext = toHex encrypted, env_authTag = toHex authTag\<rparr>)"

text \<open>
  \<^verbatim>\<open>decryptToken\<close>. \<^verbatim>\<open>createDecipheriv\<close> refuses an empty initialisation vector. It is
  called without \<^verbatim>\<open>authTagLength\<close>, so \<^verbatim>\<open>setAuthTag\<close> takes a tag of 4, 8 or 12 to 16
  bytes, and \<^verbatim>\<open>final\<close> compares that many bytes of the tag it computed.
\<close>

definition decryptToken :: "platform \<Rightarrow> envelope \<Rightarrow> exn + jsstring" where
  "decryptToken P payload =
     (let iv = fromHex (env_iv payload);
          authTag = fromHex (env_authTag payload);
          ciphertext = fromHex (env_ciphertext payload)
      in if iv = [] then Inl InvalidIV
         else if length authTag \<notin> {4, 8, 12, 13, 14, 15, 16} then Inl InvalidAuthTagLength
         else if take (length authTag) (tag_bytes (gcm_tag P (ENCRYPTION_KEY P) iv ciphertext)) \<noteq> authTag
           then Inl UnableToAuthenticate
         else Inr (utf8_decode (xor_stream (aes_keystream P (ENCRYPTION_KEY P) iv) 0 ciphertext)))"

section \<open>The token codec\<close>

text \<open>The payload the login handlers sign: \<^verbatim>\<open>{role, user: {id, email}, sessionId}\<close>.\<close>

record token_payload =
  p_role :: string
  p_user_id :: string
  p_user_email :: string
  p_sessionId :: string

text \<open>
  \<^verbatim>\<open>jwt.sign(payload, secret, {algorithm: "HS256", expiresIn: "24h"})\<close>: the library adds
  \<^verbatim>\<open>iat\<close>, the second of signing, and \<^verbatim>\<open>exp = iat + 24h\<close>.
\<close>

definition signedClaims :: "int \<Rightarrow> token_payload \<Rightarrow> claims" where
  "signedClaims now_ms payload =
     (let timestamp = now_ms div 1000
      in \<lparr>c_role = Some (p_role payload), c_user_id = Some (p_user_id payload),
          c_user_email = Some (p_user_email payload), c_sessionId = Str (p_sessionId payload),
          c_iat = Some timestamp, c_exp = Some (timestamp + 24 * 60 * 60)\<rparr>)"

definition jwt_sign :: "platform \<Rightarrow> int \<Rightarrow> token_payload \<Rightarrow> jsstring" where
  "jwt_sign P now_ms payload = jwt_encode P (JWT_SECRET P) (signedClaims now_ms payload)"

text \<open>
  \<^verbatim>\<open>jwt.verify(token, secret, {algorithms: ["HS256"], clockTolerance: 30})\<close>: after the
  signature, the library compares the current second with \<^verbatim>\<open>exp\<close> plus the tolerance.
\<close>

definition jwt_verify :: "platform \<Rightarrow> int \<Rightarrow> jsstring \<Rightarrow> exn + claims" where
  "jwt_verify P now_ms token =
     (case jwt_decode P (JWT_SECRET P) token of
        None \<Rightarrow> Inl JsonWebTokenError
      | Some decoded \<Rightarrow>
          (case c_exp decoded of
             None \<Rightarrow> Inr decoded
           | Some e \<Rightarrow>
               if now_ms div 1000 \<ge> e + 30 then Inl TokenExpiredError else Inr decoded))"

text \<open>\<^verbatim>\<open>generateEncryptedToken\<close>.\<close>

definition generateEncryptedToken :: "platform \<Rightarrow> int \<Rightarrow> byte list \<Rightarrow> token_payload \<Rightarrow> string" where
  "generateEncryptedToken P now_ms iv payload =
     (let rawJwt = jwt_sign P now_ms payload;
          encrypted = encryptToken P iv rawJwt
      in json_b64_encode P encrypted)"

text \<open>\<^verbatim>\<open>generateSecureToken\<close> (token.helper.js) on the value of \<^verbatim>\<open>crypto.randomBytes(32)\<close>.\<close>

definition generateSecureToken :: "byte list \<Rightarrow> string" where
  "generateSecureToken random32 = toHex random32"

section \<open>The authentication gate (auth.middleware.js)\<close>

record request =
  authorization :: "string option"
  cookie_accessToken :: "string option"

record identity =
  user_id :: string
  user_role :: string
  user_email :: string
  user_sessionId :: jsopt

datatype gate_result = Reject http_response | Next identity

definition reply :: "nat \<Rightarrow> string \<Rightarrow> http_response" where
  "reply code msg = \<lparr>status = code, body = JObj [(''success'', JBool False), (''message'', JStr msg)]\<rparr>"

definition startsWith :: "string \<Rightarrow> string \<Rightarrow> bool" where
  "startsWith s p = (take (length p) s = p)"

text \<open>
  \<^verbatim>\<open>header.split(" ")[1]\<close> for a header that starts with \<^verbatim>\<open>"Bearer "\<close>: the text between the
  first space and the next one.
\<close>

definition bearerToken :: "string \<Rightarrow> string" where
  "bearerToken header = takeWhile (\<lambda>c. c \<noteq> CHR '' '') (drop 7 header)"

text \<open>\<^verbatim>\<open>decoded.sessionId !== user.sessionId\<close>, with the stored field \<^verbatim>\<open>null\<close> or a string.\<close>

definition sessionDiffers :: "jsopt \<Rightarrow> string option \<Rightarrow> bool" where
  "sessionDiffers d s =
     (case d of
        Undefined \<Rightarrow> True
      | Null \<Rightarrow> s \<noteq> None
      | Str x \<Rightarrow> s \<noteq> Some x)"

text \<open>
  Lines 137--138 of the middleware: \<^verbatim>\<open>now = Date.now() / 1000\<close> and the test
  \<^verbatim>\<open>decoded.iat < now - 24 * 60 * 60\<close>, which is false for a token without \<^verbatim>\<open>iat\<close>.
\<close>

definition exceedsMaxLifetime :: "int \<Rightarrow> claims \<Rightarrow> bool" where
  "exceedsMaxLifetime now_ms decoded =
     (case c_iat decoded of
        None \<Rightarrow> False
      | Some iat \<Rightarrow> real_of_int iat < real_of_int now_ms / 1000 - 24 * 60 * 60)"

text \<open>
  \<^verbatim>\<open>encryptedAuthMiddleware\<close>, first half (lines 105--129): the token is taken from the
  \<^verbatim>\<open>Authorization\<close> header or else from the cookie, parsed, decrypted and verified. One
  instant \<open>now_ms\<close> stands for the readings of \<^verbatim>\<open>Date.now()\<close> during the request.
\<close>

datatype opened = Thrown exn | Missing | Verified claims

definition openRequest :: "platform \<Rightarrow> int \<Rightarrow> request \<Rightarrow> opened" where
  "openRequest P now_ms req =
     (case (case authorization req of
              Some header \<Rightarrow>
                if startsWith header ''Bearer '' then json_b64_decode P (bearerToken header)
                else if \<not> falsy (cookie_accessToken req)
                  then json_b64_decode P (case cookie_accessToken req of Some c \<Rightarrow> c | None \<Rightarrow> [])
                else Some Falsy
            | None \<Rightarrow>
                if \<not> falsy (cookie_accessToken req)
                  then json_b64_decode P (case cookie_accessToken req of Some c \<Rightarrow> c | None \<Rightarrow> [])
                else Some Falsy) of
        None \<Rightarrow> Thrown SyntaxError
      | Some Falsy \<Rightarrow> Missing
      | Some (Envelope encryptedPayload) \<Rightarrow>
          (case decryptToken P encryptedPayload of
             Inl err \<Rightarrow> Thrown err
           | Inr decryptedJwt \<Rightarrow>
               (case jwt_verify P now_ms decryptedJwt of
                  Inl err \<Rightarrow> Thrown err
                | Inr decoded \<Rightarrow> Verified decoded)))"

text \<open>
  \<^verbatim>\<open>encryptedAuthMiddleware\<close>, the whole handler: every exception ends in the \<^verbatim>\<open>catch\<close>
  block, and so does the \<^verbatim>\<open>CastError\<close> of \<^verbatim>\<open>findById\<close>.
\<close>

definition encryptedAuthMiddleware :: "platform \<Rightarrow> int \<Rightarrow> account list \<Rightarrow> request \<Rightarrow> gate_result" where
  "encryptedAuthMiddleware P now_ms db req =
     (case openRequest P now_ms req of
        Thrown err \<Rightarrow> Reject (reply 401 ''Authentication failed'')
      | Missing \<Rightarrow> Reject (reply 401 ''Unauthorized: Missing encrypted token'')
      | Verified decoded \<Rightarrow>
          if falsy (c_user_id decoded) \<or> falsy (c_role decoded)
            then Reject (reply 401 ''Malformed token payload'')
          else if exceedsMaxLifetime now_ms decoded
            then Reject (reply 401 ''Token exceeded max lifetime'')
          else if c_role decoded \<noteq> Some ''SUPERADMIN''
            then Reject (reply 401 ''Invalid role'')
          else
            (case c_user_id decoded of
               None \<Rightarrow> Reject (reply 401 ''Malformed token payload'')
             | Some uid \<Rightarrow>
                 if \<not> castObjectId P uid then Reject (reply 401 ''Authentication failed'')
                 else
                   (case findById db uid of
                      None \<Rightarrow> Reject (reply 404 ''User not found'')
                    | Some user \<Rightarrow>
                        if sessionDiffers (c_sessionId decoded) (sessionId user)
                          then Reject (reply 401 ''Session mismatch detected'')
                        else if \<not> isActive user
                          then Reject (reply 403 ''Account is disabled'')
                        else Next \<lparr>user_id = doc_id user,
                                    user_role = (case c_role decoded of Some r \<Rightarrow> r | None \<Rightarrow> []),
                                    user_email = email user,
                                    user_sessionId = c_sessionId decoded\<rparr>)))"

section \<open>Login and logout (super-admin.controller.js, user controller)\<close>

record outcome =
  response :: http_response
  cookies :: "cookie_op list"
  db_after :: "account list"
  compared :: bool

text \<open>\<^verbatim>\<open>doc.lockUntil && doc.lockUntil > Date.now()\<close> and its counterpart with \<^verbatim>\<open><=\<close>.\<close>

definition lockedAt :: "int \<Rightarrow> account \<Rightarrow> bool" where
  "lockedAt now_ms a = (case lockUntil a of None \<Rightarrow> False | Some l \<Rightarrow> l > now_ms)"

definition lockExpiredAt :: "int \<Rightarrow> account \<Rightarrow> bool" where
  "lockExpiredAt now_ms a = (case lockUntil a of None \<Rightarrow> False | Some l \<Rightarrow> l \<le> now_ms)"

text \<open>\<^verbatim>\<open>Math.ceil((doc.lockUntil - Date.now()) / 60000)\<close>.\<close>

definition remainingMinutes :: "int \<Rightarrow> account \<Rightarrow> int" where
  "remainingMinutes now_ms a =
     (case lockUntil a of None \<Rightarrow> 0 | Some l \<Rightarrow> \<lceil>real_of_int (l - now_ms) / 60000\<rceil>)"

definition lockedMessage :: "int \<Rightarrow> string" where
  "lockedMessage remaining = ''Account locked. Try again in '' @ showNat (nat remaining) @ '' minutes.''"

text \<open>
  \<^verbatim>\<open>loginSuperAdmin\<close>. \<open>random32\<close> and \<open>iv\<close> are the values of the two calls of
  \<^verbatim>\<open>crypto.randomBytes\<close>; \<open>compared\<close> records whether \<^verbatim>\<open>bcrypt.compare\<close> ran.
\<close>

definition loginSuperAdmin ::
  "platform \<Rightarrow> int \<Rightarrow> byte list \<Rightarrow> byte list \<Rightarrow> account list \<Rightarrow> string option \<Rightarrow> string option \<Rightarrow> outcome" where
  "loginSuperAdmin P now_ms random32 iv db email_in password_in =
     (if falsy email_in \<or> falsy password_in then
        \<lparr>response = reply 400 ''Email and password are required'', cookies = [], db_after = db,
         compared = False\<rparr>
      else
        (case findOne db (case email_in of Some e \<Rightarrow> e | None \<Rightarrow> []) of
           None \<Rightarrow>
             \<lparr>response = reply 401 ''Invalid credentials'', cookies = [], db_after = db, compared = False\<rparr>
         | Some superAdmin \<Rightarrow>
             if lockedAt now_ms superAdmin then
               \<lparr>response = reply 423 (lockedMessage (remainingMinutes now_ms superAdmin)),
                cookies = [], db_after = db, compared = False\<rparr>
             else
               (let unlocked = (if lockExpiredAt now_ms superAdmin
                                then superAdmin\<lparr>loginAttempts := 0, lockUntil := None\<rparr>
                                else superAdmin);
                    db1 = (if lockExpiredAt now_ms superAdmin then save db unlocked else db);
                    isMatch = bcrypt_compare P (case password_in of Some p \<Rightarrow> p | None \<Rightarrow> [])
                                (password unlocked)
                in if \<not> isMatch then
                     (let counted = unlocked\<lparr>loginAttempts := loginAttempts unlocked + 1\<rparr>;
                          failed = (if loginAttempts counted \<ge> 3
                                    then counted\<lparr>lockUntil := Some (now_ms + 30 * 60 * 1000)\<rparr>
                                    else counted);
                          message = (if lockedAt now_ms failed
                                     then ''Too many failed login attempts. Account locked for 30 minutes.''
                                     else ''Invalid credentials'')
                      in \<lparr>response =
                            \<lparr>status = 401,
                             body = JObj [(''success'', JBool False), (''message'', JStr message),
                                          (''attempts'', JNum (loginAttempts failed))]\<rparr>,
                          cookies = [], db_after = save db1 failed, compared = True\<rparr>)
                   else
                     (let logged = unlocked\<lparr>loginAttempts := 0, lockUntil := None,
                                            lastLogin := Some now_ms,
                                            sessionId := Some (generateSecureToken random32)\<rparr>;
                          payload = \<lparr>p_role = ''SUPERADMIN'', p_user_id = doc_id logged,
                                     p_user_email = email logged,
                                     p_sessionId = generateSecureToken random32\<rparr>;
                          encryptedToken = generateEncryptedToken P now_ms iv payload
                      in \<lparr>response =
                            \<lparr>status = 200,
                             body = JObj [(''success'', JBool True),
                                          (''message'', JStr ''Super Admin login successfully!''),
                                          (''superAdmin'',
                                             JObj [(''id'', JStr (doc_id logged)),
                                                   (''userName'', JStr (userName logged)),
                                                   (''email'', JStr (email logged))]),
                                          (''token'', JStr encryptedToken),
                                          (''expiresIn'', JNum (24 * 60 * 60))]\<rparr>,
                          cookies = [SetCookie ''accessToken'' encryptedToken],
                          db_after = save db1 logged, compared = True\<rparr>))))"

text \<open>
  \<^verbatim>\<open>loginUser\<close>: the same flow on the User collection, with the email folded to lower
  case for the lookup.
\<close>

definition loginUser ::
  "platform \<Rightarrow> int \<Rightarrow> byte list \<Rightarrow> byte list \<Rightarrow> account list \<Rightarrow> string option \<Rightarrow> string option \<Rightarrow> outcome" where
  "loginUser P now_ms random32 iv db email_in password_in =
     (if falsy email_in \<or> falsy password_in then
        \<lparr>response = reply 400 ''Email and password are required'', cookies = [], db_after = db,
         compared = False\<rparr>
      else
        (case findOne db (toLowerCase (case email_in of Some e \<Rightarrow> e | None \<Rightarrow> [])) of
           None \<Rightarrow>
             \<lparr>response = reply 401 ''Invalid credentials'', cookies = [], db_after = db, compared = False\<rparr>
         | Some user \<Rightarrow>
             if lockedAt now_ms user then
               \<lparr>response = reply 423 (lockedMessage (remainingMinutes now_ms user)),
                cookies = [], db_after = db, compared = False\<rparr>
             else
               (let unlocked = (if lockExpiredAt now_ms user
                                then user\<lparr>loginAttempts := 0, lockUntil := None\<rparr>
                                else user);
                    db1 = (if lockExpiredAt now_ms user then save db unlocked else db);
                    isMatch = bcrypt_compare P (case password_in of Some p \<Rightarrow> p | None \<Rightarrow> [])
                                (password unlocked)
                in if \<not> isMatch then
                     (let counted = unlocked\<lparr>loginAttempts := loginAttempts unlocked + 1\<rparr>;
                          failed = (if loginAttempts counted \<ge> 3
                                    then counted\<lparr>lockUntil := Some (now_ms + 30 * 60 * 1000)\<rparr>
                                    else counted);
                          message = (if lockedAt now_ms failed
                                     then ''Too many failed login attempts. Account locked for 30 minutes.''
                                     else ''Invalid credentials'')
                      in \<lparr>response =
                            \<lparr>status = 401,
                             body = JObj [(''success'', JBool False), (''message'', JStr message),
                                          (''attempts'', JNum (loginAttempts failed))]\<rparr>,
                          cookies = [], db_after = save db1 failed, compared = True\<rparr>)
                   else
                     (let logged = unlocked\<lparr>loginAttempts := 0, lockUntil := None,
                                            lastLogin := Some now_ms,
                                            sessionId := Some (generateSecureToken random32)\<rparr>;
                          payload = \<lparr>p_role = ''USER'', p_user_id = doc_id logged,
                                     p_user_email = email logged,
                                     p_sessionId = generateSecureToken random32\<rparr>;
                          encryptedToken = generateEncryptedToken P now_ms iv payload
                      in \<lparr>response =
                            \<lparr>status = 200,
                             body = JObj [(''success'', JBool True),
                                          (''message'', JStr ''User login successfully!''),
                                          (''user'',
                                             JObj [(''id'', JStr (doc_id logged)),
                                                   (''userName'', JStr (userName logged)),
                                                   (''email'', JStr (email logged))]),
                                          (''token'', JStr encryptedToken),
                                          (''expiresIn'', JNum (24 * 60 * 60))]\<rparr>,
                          cookies = [SetCookie ''accessToken'' encryptedToken],
                          db_after = save db1 logged, compared = True\<rparr>))))"

text \<open>The two sign-in routes, and the key each looks an account up by.\<close>

datatype login_route = SigninSuperAdmin | SigninUser

definition login ::
  "login_route \<Rightarrow> platform \<Rightarrow> int \<Rightarrow> byte list \<Rightarrow> byte list \<Rightarrow> account list \<Rightarrow> string option \<Rightarrow> string option \<Rightarrow> outcome" where
  "login h P now_ms random32 iv db email_in password_in =
     (case h of
        SigninSuperAdmin \<Rightarrow> loginSuperAdmin P now_ms random32 iv db email_in password_in
      | SigninUser \<Rightarrow> loginUser P now_ms random32 iv db email_in password_in)"

definition lookupKey :: "login_route \<Rightarrow> string \<Rightarrow> string" where
  "lookupKey h e = (case h of SigninSuperAdmin \<Rightarrow> e | SigninUser \<Rightarrow> toLowerCase e)"

definition roleName :: "login_route \<Rightarrow> string" where
  "roleName h = (case h of SigninSuperAdmin \<Rightarrow> ''SUPERADMIN'' | SigninUser \<Rightarrow> ''USER'')"

text \<open>
  \<^verbatim>\<open>logoutSuperAdmin\<close>; \<open>req_user\<close> is \<^verbatim>\<open>req.user\<close>, absent when no gate ran before the
  handler. An id that Mongoose cannot cast makes \<^verbatim>\<open>findByIdAndUpdate\<close> throw.
\<close>

definition logoutSuperAdmin ::
  "platform \<Rightarrow> byte list \<Rightarrow> account list \<Rightarrow> identity option \<Rightarrow> outcome" where
  "logoutSuperAdmin P random32 db req_user =
     (case (case req_user of
              None \<Rightarrow> Some db
            | Some u \<Rightarrow>
                if user_id u = [] then Some db
                else if \<not> castObjectId P (user_id u) then None
                else Some (findByIdAndUpdate_sessionId db (user_id u) (generateSecureToken random32))) of
        None \<Rightarrow>
          \<lparr>response =
             \<lparr>status = 500,
              body = JObj [(''success'', JBool False), (''message'', JStr ''Server Error''),
                           (''error'', JStr (error_message P CastError))]\<rparr>,
           cookies = [], db_after = db, compared = False\<rparr>
      | Some db' \<Rightarrow>
          \<lparr>response =
             \<lparr>status = 200,
              body = JObj [(''success'', JBool True), (''message'', JStr ''Logout successfully'')]\<rparr>,
           cookies = [ClearCookie ''accessToken''], db_after = db', compared = False\<rparr>)"

text \<open>
  The document after the lazy unlock of lines 158--162, and after the failed-attempt
  update of lines 167--170.
\<close>

definition unlockExpired :: "int \<Rightarrow> account \<Rightarrow> account" where
  "unlockExpired now_ms a =
     (if lockExpiredAt now_ms a then a\<lparr>loginAttempts := 0, lockUntil := None\<rparr> else a)"

definition countFailure :: "int \<Rightarrow> account \<Rightarrow> account" where
  "countFailure now_ms a =
     (if loginAttempts a + 1 \<ge> 3
      then a\<lparr>loginAttempts := loginAttempts a + 1, lockUntil := Some (now_ms + 30 * 60 * 1000)\<rparr>
      else a\<lparr>loginAttempts := loginAttempts a + 1\<rparr>)"

section \<open>A concrete platform and collection for the examples\<close>

text \<open>
  Stand-ins for the libraries, small enough to evaluate: a key stream that counts, a tag
  made of the length of the ciphertext, a token codec that knows two tokens, an envelope
  written as three fields between dots, and a password hash that is a prefix.
\<close>

fun splitOn :: "char \<Rightarrow> string \<Rightarrow> string list" where
  "splitOn d [] = [[]]"
| "splitOn d (c # cs) =
     (if c = d then [] # splitOn d cs
      else (case splitOn d cs of [] \<Rightarrow> [[c]] | w # ws \<Rightarrow> (c # w) # ws))"

definition demoClaims :: "string \<Rightarrow> claims" where
  "demoClaims sid =
     \<lparr>c_role = Some ''SUPERADMIN'', c_user_id = Some ''64b7f0c2a1d3e4f5a6b7c8d9'',
      c_user_email = Some ''a@x.com'', c_sessionId = Str sid, c_iat = Some 0,
      c_exp = Some (0 + 24 * 60 * 60)\<rparr>"

definition demoPlatform :: platform where
  "demoPlatform =
     \<lparr>ENCRYPTION_KEY = replicate 32 0x2A, JWT_SECRET = ''demo-secret'',
      aes_keystream = (\<lambda>key iv i. of_nat i + 1),
      gcm_tag = (\<lambda>key iv c. 0xA0 + of_nat (length c)),
      jwt_encode = (\<lambda>secret c. if c_sessionId c = Str ''5c'' then [0x32] else [0x31]),
      jwt_decode = (\<lambda>secret t. if t = [0x32] then Some (demoClaims ''5c'')
                                else if t = [0x31] then Some (demoClaims ''4b'') else None),
      json_b64_encode = (\<lambda>e. env_iv e @ ''.'' @ env_ciphertext e @ ''.'' @ env_authTag e),
      json_b64_decode =
        (\<lambda>s. if s = ''null'' then Some Falsy
             else (case splitOn CHR ''.'' s of
                     [a, b, c] \<Rightarrow>
                       Some (Envelope \<lparr>env_iv = a, env_ciphertext = b, env_authTag = c\<rparr>)
                   | _ \<Rightarrow> None)),
      bcrypt_compare = (\<lambda>p h. h = ''hash:'' @ p),
      castObjectId = (\<lambda>s. length s = 24),
      error_message = (\<lambda>e. ''error'')\<rparr>"

definition demoAdmin :: account where
  "demoAdmin =
     \<lparr>doc_id = ''64b7f0c2a1d3e4f5a6b7c8d9'', userName = ''root'', email = ''a@x.com'',
      password = ''hash:Correct1!'', isActive = True, lastLogin = None, loginAttempts = 0,
      lockUntil = None, sessionId = None\<rparr>"


definition demoRequest :: "string \<Rightarrow> request" where
  "demoRequest tok = \<lparr>authorization = Some (''Bearer '' @ tok), cookie_accessToken = None\<rparr>"


section \<open>Facts about the collection and the buffers\<close>

lemma findOne_save:
  "findOne db e = Some a \<Longrightarrow> doc_id a' = doc_id a \<Longrightarrow> email a' = e \<Longrightarrow>
   findOne (save db a') e = Some a'"
  by (induction db) (auto simp: findOne_def save_def split: if_splits)

lemma findOne_mem: "findOne db e = Some a \<Longrightarrow> a \<in> set db \<and> email a = e"
  by (induction db) (auto simp: findOne_def split: if_splits)

lemma findById_save:
  "a \<in> set db \<Longrightarrow> doc_id a' = doc_id a \<Longrightarrow> findById (save db a') (doc_id a) = Some a'"
  by (induction db) (auto simp: findById_def save_def split: if_splits)

lemma save_save: "doc_id a' = doc_id a \<Longrightarrow> save (save db a) a' = save db a'"
  by (induction db) (auto simp: save_def)







subsection \<open>UTF-8 decoding inverts encoding on well-formed strings\<close>



















section \<open>The branches of a sign-in\<close>


lemma login_locked:
  "findOne db (lookupKey h e) = Some a \<Longrightarrow> lockedAt now a \<Longrightarrow> e \<noteq> [] \<Longrightarrow> pw \<noteq> [] \<Longrightarrow>
   login h P now r iv db (Some e) (Some pw) =
     \<lparr>response = reply 423 (lockedMessage (remainingMinutes now a)), cookies = [], db_after = db,
      compared = False\<rparr>"
  by (cases h) (simp_all add: login_def lookupKey_def loginSuperAdmin_def loginUser_def falsy_def)

lemma login_wrong:
  "findOne db (lookupKey h e) = Some a \<Longrightarrow> \<not> lockedAt now a \<Longrightarrow> e \<noteq> [] \<Longrightarrow> pw \<noteq> [] \<Longrightarrow>
   \<not> bcrypt_compare P pw (password a) \<Longrightarrow>
   login h P now r iv db (Some e) (Some pw) =
     \<lparr>response =
        \<lparr>status = 401,
         body = JObj [(''success'', JBool False),
                      (''message'',
                         JStr (if lockedAt now (countFailure now (unlockExpired now a))
                               then ''Too many failed login attempts. Account locked for 30 minutes.''
                               else ''Invalid credentials'')),
                      (''attempts'', JNum (loginAttempts (countFailure now (unlockExpired now a))))]\<rparr>,
      cookies = [], db_after = save db (countFailure now (unlockExpired now a)), compared = True\<rparr>"
  by (cases h)
    (auto simp add: login_def lookupKey_def loginSuperAdmin_def loginUser_def falsy_def Let_def
       unlockExpired_def countFailure_def save_save)

lemma login_right:
  "findOne db (lookupKey h e) = Some a \<Longrightarrow> \<not> lockedAt now a \<Longrightarrow> e \<noteq> [] \<Longrightarrow> pw \<noteq> [] \<Longrightarrow>
   bcrypt_compare P pw (password a) \<Longrightarrow>
   status (response (login h P now r iv db (Some e) (Some pw))) = 200 \<and>
   cookies (login h P now r iv db (Some e) (Some pw)) =
     [SetCookie ''accessToken''
        (generateEncryptedToken P now iv
           \<lparr>p_role = roleName h, p_user_id = doc_id a, p_user_email = email a,
            p_sessionId = generateSecureToken r\<rparr>)] \<and>
   db_after (login h P now r iv db (Some e) (Some pw)) =
     save db (a\<lparr>loginAttempts := 0, lockUntil := None, lastLogin := Some now,
                sessionId := Some (generateSecureToken r)\<rparr>) \<and>
   compared (login h P now r iv db (Some e) (Some pw))"
  by (cases h)
    (auto simp add: login_def lookupKey_def roleName_def loginSuperAdmin_def loginUser_def
       falsy_def Let_def save_save)

section \<open>Facts about the envelope, the gate and the example platform\<close>






lemma gate_verified:
  assumes "openRequest P now req = Verified d"
    and "c_role d = Some ''SUPERADMIN''" "c_user_id d = Some uid" "uid \<noteq> []"
    and "\<not> exceedsMaxLifetime now d" "castObjectId P uid" "findById db uid = Some u"
  shows "encryptedAuthMiddleware P now db req =
    (if sessionDiffers (c_sessionId d) (sessionId u) then Reject (reply 401 ''Session mismatch detected'')
     else if \<not> isActive u then Reject (reply 403 ''Account is disabled'')
     else Next \<lparr>user_id = doc_id u, user_role = ''SUPERADMIN'', user_email = email u,
                 user_sessionId = c_sessionId d\<rparr>)"
  using assms by (simp add: encryptedAuthMiddleware_def falsy_def)

lemma gate_next:
  assumes "encryptedAuthMiddleware P now db req = Next i"
  shows "\<exists>u. findById db (user_id i) = Some u \<and> isActive u \<and> \<not> sessionDiffers (user_sessionId i) (sessionId u)"
proof -
  have mem: "findById db x = Some u \<Longrightarrow> doc_id u = x" for x u
    by (induction db) (auto simp: findById_def split: if_splits)
  show ?thesis
    using assms mem
    by (auto simp: encryptedAuthMiddleware_def split: opened.splits if_splits option.splits)
qed

lemma sessionDiffers_Some: "sessionDiffers d (Some s) = (d \<noteq> Str s)"
  by (cases d) (auto simp: sessionDiffers_def)

lemma demo_fields:
  "ENCRYPTION_KEY demoPlatform = replicate 32 0x2A"
  "JWT_SECRET demoPlatform = ''demo-secret''"
  "aes_keystream demoPlatform key iv i = of_nat i + 1"
  "gcm_tag demoPlatform key iv c = 0xA0 + of_nat (length c)"
  "jwt_encode demoPlatform secret cl = (if c_sessionId cl = Str ''5c'' then [0x32] else [0x31])"
  "jwt_decode demoPlatform secret t =
     (if t = [0x32] then Some (demoClaims ''5c'')
      else if t = [0x31] then Some (demoClaims ''4b'') else None)"
  "json_b64_encode demoPlatform e = env_iv e @ ''.'' @ env_ciphertext e @ ''.'' @ env_authTag e"
  "json_b64_decode demoPlatform s =
     (if s = ''null'' then Some Falsy
      else (case splitOn CHR ''.'' s of
              [a, b, c] \<Rightarrow> Some (Envelope \<lparr>env_iv = a, env_ciphertext = b, env_authTag = c\<rparr>)
            | _ \<Rightarrow> None))"
  "bcrypt_compare demoPlatform p h = (h = ''hash:'' @ p)"
  "castObjectId demoPlatform s = (length s = 24)"
  by (simp_all add: demoPlatform_def)

lemma tag_bytes_demo: "tag_bytes 0xA1 = [0, 0, 0, 0, 0, 0, 0, 0, 0, 0, 0, 0, 0, 0, 0, 0xA1]"
  by code_simp

lemma demo_seal:
  "encryptToken demoPlatform [1] [0x32] =
     \<lparr>env_iv = ''01'', env_ciphertext = ''33'', env_authTag = ''000000000000000000000000000000a1''\<rparr>"
  by (simp add: encryptToken_def demo_fields utf8_of_cp_def isHigh_def isLow_def tag_bytes_demo
      toHex_def hexDigit_def)

lemma demo_token:
  "generateEncryptedToken demoPlatform 0 [1]
     \<lparr>p_role = ''SUPERADMIN'', p_user_id = ''64b7f0c2a1d3e4f5a6b7c8d9'', p_user_email = ''a@x.com'',
      p_sessionId = ''5c''\<rparr> = ''01.33.000000000000000000000000000000a1''"
  by (simp add: generateEncryptedToken_def jwt_sign_def signedClaims_def demo_fields demo_seal)

lemma demo_open_new:
  "openRequest demoPlatform 1000 (demoRequest ''01.33.000000000000000000000000000000a1'')
     = Verified (demoClaims ''5c'')"
  by (simp add: openRequest_def demoRequest_def startsWith_def bearerToken_def demo_fields
      decryptToken_def unhex_def tag_bytes_demo jwt_verify_def inRange_def demoClaims_def)


lemma demo_session: "generateSecureToken [0x5C] = ''5c''"
  by (simp add: generateSecureToken_def toHex_def hexDigit_def)

lemma exceeds_iff:
  "c_iat d = Some iat \<Longrightarrow> exceedsMaxLifetime now d = (now - iat * 1000 > 24 * 60 * 60 * 1000)"
proof -
  assume i: "c_iat d = Some iat"
  have "(real_of_int iat < real_of_int now / 1000 - 24 * 60 * 60)
      = (real_of_int (iat * 1000 + 24 * 60 * 60 * 1000) < real_of_int now)"
    by (simp add: field_simps)
  also have "\<dots> = (iat * 1000 + 24 * 60 * 60 * 1000 < now)"
    by (simp only: of_int_less_iff)
  also have "\<dots> = (now - iat * 1000 > 24 * 60 * 60 * 1000)"
    by auto
  finally show ?thesis
    using i by (simp add: exceedsMaxLifetime_def)
qed

section \<open>Lockout\<close>

text \<open>
  Claim C2 (lockout threshold). On either sign-in route, take an account with
  \<open>loginAttempts = 0\<close> that is not locked. Three sign-ins with a wrong password, at the
  times \<open>t1\<close>, \<open>t2\<close> and \<open>t3\<close>, each run the password comparison and leave the account
  with three attempts and \<open>lockUntil = t3 + 30 min\<close>. A fourth sign-in at any time \<open>t4\<close> before that, whatever
  its password, is answered 423 with the remaining minutes, without a call of
  \<^verbatim>\<open>bcrypt.compare\<close> and without a change to the collection.
\<close>

theorem lockout_threshold:
  fixes h P db e a w1 w2 w3 pw t1 t2 t3 t4 r1 r2 r3 r4 iv1 iv2 iv3 iv4 db1 db2 db3
  defines "db1 \<equiv> db_after (login h P t1 r1 iv1 db (Some e) (Some w1))"
    and "db2 \<equiv> db_after (login h P t2 r2 iv2 db1 (Some e) (Some w2))"
    and "db3 \<equiv> db_after (login h P t3 r3 iv3 db2 (Some e) (Some w3))"
  assumes found: "findOne db (lookupKey h e) = Some a"
    and fresh: "loginAttempts a = 0" "\<not> lockedAt t1 a"
    and given: "e \<noteq> []" "w1 \<noteq> []" "w2 \<noteq> []" "w3 \<noteq> []" "pw \<noteq> []"
    and wrong: "\<not> bcrypt_compare P w1 (password a)" "\<not> bcrypt_compare P w2 (password a)"
      "\<not> bcrypt_compare P w3 (password a)"
    and early: "t4 < t3 + 30 * 60 * 1000"
  shows "compared (login h P t1 r1 iv1 db (Some e) (Some w1))
    \<and> compared (login h P t2 r2 iv2 db1 (Some e) (Some w2))
    \<and> compared (login h P t3 r3 iv3 db2 (Some e) (Some w3))
    \<and> findOne db3 (lookupKey h e)
        = Some (a\<lparr>loginAttempts := 3, lockUntil := Some (t3 + 30 * 60 * 1000)\<rparr>)
    \<and> login h P t4 r4 iv4 db3 (Some e) (Some pw) =
        \<lparr>response = reply 423 (lockedMessage \<lceil>real_of_int (t3 + 30 * 60 * 1000 - t4) / 60000\<rceil>),
         cookies = [], db_after = db3, compared = False\<rparr>"
proof -
  let ?k = "lookupKey h e"
  define a1 where "a1 = a\<lparr>loginAttempts := 1, lockUntil := None\<rparr>"
  define a2 where "a2 = a\<lparr>loginAttempts := 2, lockUntil := None\<rparr>"
  define a3 where "a3 = a\<lparr>loginAttempts := 3, lockUntil := Some (t3 + 30 * 60 * 1000)\<rparr>"
  have em: "email a = ?k" using findOne_mem [OF found] by simp
  have c1: "countFailure t1 (unlockExpired t1 a) = a1"
    using fresh by (auto simp: countFailure_def unlockExpired_def a1_def lockExpiredAt_def lockedAt_def split: option.splits)
  have s1: "db1 = save db a1"
    unfolding db1_def using login_wrong [OF found fresh(2) given(1,2) wrong(1)] c1 by simp
  have k1: "compared (login h P t1 r1 iv1 db (Some e) (Some w1))"
    using login_wrong [OF found fresh(2) given(1,2) wrong(1)] by simp
  have f1: "findOne db1 ?k = Some a1"
    unfolding s1 using findOne_save [OF found, of a1] em by (simp add: a1_def)
  have n1: "\<not> lockedAt t2 a1" by (simp add: a1_def lockedAt_def)
  have p1: "password a1 = password a" by (simp add: a1_def)
  have c2: "countFailure t2 (unlockExpired t2 a1) = a2"
    by (simp add: countFailure_def unlockExpired_def a1_def a2_def lockExpiredAt_def)
  have s2: "db2 = save db1 a2"
    unfolding db2_def using login_wrong [OF f1 n1 given(1,3)] wrong(2) p1 c2 by simp
  have k2: "compared (login h P t2 r2 iv2 db1 (Some e) (Some w2))"
    using login_wrong [OF f1 n1 given(1,3), of P r2 iv2] wrong(2) p1 by simp
  have f2: "findOne db2 ?k = Some a2"
    unfolding s2 using findOne_save [OF f1, of a2] em by (simp add: a1_def a2_def)
  have n2: "\<not> lockedAt t3 a2" by (simp add: a2_def lockedAt_def)
  have p2: "password a2 = password a" by (simp add: a2_def)
  have c3: "countFailure t3 (unlockExpired t3 a2) = a3"
    by (simp add: countFailure_def unlockExpired_def a2_def a3_def lockExpiredAt_def)
  have s3: "db3 = save db2 a3"
    unfolding db3_def using login_wrong [OF f2 n2 given(1,4)] wrong(3) p2 c3 by simp
  have k3: "compared (login h P t3 r3 iv3 db2 (Some e) (Some w3))"
    using login_wrong [OF f2 n2 given(1,4), of P r3 iv3] wrong(3) p2 by simp
  have f3: "findOne db3 ?k = Some a3"
    unfolding s3 using findOne_save [OF f2, of a3] em by (simp add: a2_def a3_def)
  have l3: "lockedAt t4 a3" using early by (simp add: a3_def lockedAt_def)
  have r3: "remainingMinutes t4 a3 = \<lceil>real_of_int (t3 + 30 * 60 * 1000 - t4) / 60000\<rceil>"
    by (simp add: remainingMinutes_def a3_def)
  show ?thesis
    using k1 k2 k3 f3 login_locked [OF f3 l3 given(1,5), of P r4 iv4] r3 by (simp add: a3_def)
qed

theorem lockout_threshold_witness:
  "findOne [demoAdmin] (lookupKey SigninSuperAdmin ''a@x.com'') = Some demoAdmin \<and>
   \<not> bcrypt_compare demoPlatform ''wrong'' (password demoAdmin) \<and>
   bcrypt_compare demoPlatform ''Correct1!'' (password demoAdmin) \<and>
   login SigninSuperAdmin demoPlatform 60000 [] []
     (db_after (login SigninSuperAdmin demoPlatform 2000 [] []
        (db_after (login SigninSuperAdmin demoPlatform 1000 [] []
           (db_after (login SigninSuperAdmin demoPlatform 0 [] [] [demoAdmin]
              (Some ''a@x.com'') (Some ''wrong'')))
           (Some ''a@x.com'') (Some ''wrong'')))
        (Some ''a@x.com'') (Some ''wrong'')))
     (Some ''a@x.com'') (Some ''Correct1!'') =
   \<lparr>response = reply 423 ''Account locked. Try again in 30 minutes.'', cookies = [],
    db_after = [demoAdmin\<lparr>loginAttempts := 3, lockUntil := Some 1802000\<rparr>], compared = False\<rparr>"
proof -
  have found: "findOne [demoAdmin] (lookupKey SigninSuperAdmin ''a@x.com'') = Some demoAdmin"
    by (simp add: findOne_def lookupKey_def demoAdmin_def)
  have fresh: "loginAttempts demoAdmin = 0" "\<not> lockedAt 0 demoAdmin"
    by (simp_all add: demoAdmin_def lockedAt_def)
  have wrong: "\<not> bcrypt_compare demoPlatform ''wrong'' (password demoAdmin)"
    by (simp add: demoPlatform_def demoAdmin_def)
  have right: "bcrypt_compare demoPlatform ''Correct1!'' (password demoAdmin)"
    by (simp add: demoPlatform_def demoAdmin_def)
  have msg: "lockedMessage \<lceil>real_of_int (2000 + 30 * 60 * 1000 - 60000) / 60000\<rceil>
      = ''Account locked. Try again in 30 minutes.''"
    by (simp add: lockedMessage_def showNat.simps)
  have "findOne [demoAdmin\<lparr>loginAttempts := 3, lockUntil := Some 1802000\<rparr>] ''a@x.com''
      = Some (demoAdmin\<lparr>loginAttempts := 3, lockUntil := Some 1802000\<rparr>)"
    by (simp add: findOne_def demoAdmin_def)
  note t = lockout_threshold [where h = SigninSuperAdmin and P = demoPlatform and db = "[demoAdmin]"
      and e = "''a@x.com''" and a = demoAdmin and ?w1.0 = "''wrong''" and ?w2.0 = "''wrong''"
      and ?w3.0 = "''wrong''" and pw = "''Correct1!''" and ?t1.0 = 0 and ?t2.0 = 1000
      and ?t3.0 = 2000 and ?t4.0 = 60000 and ?r1.0 = "[]" and ?r2.0 = "[]" and ?r3.0 = "[]"
      and ?r4.0 = "[]" and ?iv1.0 = "[]" and ?iv2.0 = "[]" and ?iv3.0 = "[]" and ?iv4.0 = "[]",
      OF found fresh _ _ _ _ _ wrong wrong wrong]
  have db3: "db_after (login SigninSuperAdmin demoPlatform 2000 [] []
        (db_after (login SigninSuperAdmin demoPlatform 1000 [] []
           (db_after (login SigninSuperAdmin demoPlatform 0 [] [] [demoAdmin]
              (Some ''a@x.com'') (Some ''wrong'')))
           (Some ''a@x.com'') (Some ''wrong'')))
        (Some ''a@x.com'') (Some ''wrong''))
      = [demoAdmin\<lparr>loginAttempts := 3, lockUntil := Some 1802000\<rparr>]"
    by (simp add: login_def loginSuperAdmin_def demoAdmin_def demoPlatform_def falsy_def
        findOne_def lockedAt_def lockExpiredAt_def save_def)
  show ?thesis
    using found wrong right t msg unfolding db3
    by simp
qed

text \<open>
  Claim C3 (lazy lockout expiry). For an account with \<open>lockUntil = l\<close>: a sign-in at a time
  \<open>now \<ge> l\<close> has the outcome of the same sign-in on the collection in which the account's
  \<open>lockUntil\<close> is cleared and its \<open>loginAttempts\<close> are 0, and it runs the password
  comparison. With \<open>l = t0 + 30 min\<close> and the correct password, the sign-in at
  \<open>t0 + 29 min\<close> is answered 423 without a comparison, and the one at \<open>t0 + 31 min\<close> is
  answered 200 and stores the unlocked account.
\<close>

theorem lockout_expiry_lazy:
  assumes found: "findOne db (lookupKey h e) = Some a"
    and lock: "lockUntil a = Some l"
    and given: "e \<noteq> []" "pw \<noteq> []"
  shows "(l \<le> now \<longrightarrow>
           login h P now r iv db (Some e) (Some pw) =
             login h P now r iv (save db (a\<lparr>loginAttempts := 0, lockUntil := None\<rparr>)) (Some e) (Some pw)
           \<and> compared (login h P now r iv db (Some e) (Some pw)))
       \<and> (l = t0 + 30 * 60 * 1000 \<and> bcrypt_compare P pw (password a) \<longrightarrow>
           status (response (login h P (t0 + 29 * 60 * 1000) r iv db (Some e) (Some pw))) = 423
           \<and> \<not> compared (login h P (t0 + 29 * 60 * 1000) r iv db (Some e) (Some pw))
           \<and> status (response (login h P (t0 + 31 * 60 * 1000) r iv db (Some e) (Some pw))) = 200
           \<and> findOne (db_after (login h P (t0 + 31 * 60 * 1000) r iv db (Some e) (Some pw))) (lookupKey h e) =
               Some (a\<lparr>loginAttempts := 0, lockUntil := None, lastLogin := Some (t0 + 31 * 60 * 1000),
                        sessionId := Some (generateSecureToken r)\<rparr>))"
proof (intro conjI impI)
  let ?k = "lookupKey h e"
  let ?a0 = "a\<lparr>loginAttempts := 0, lockUntil := None\<rparr>"
  have em: "email a = ?k" using findOne_mem [OF found] by simp
  {
    assume le: "l \<le> now"
    have nl: "\<not> lockedAt now a" using le lock by (simp add: lockedAt_def)
    have f0: "findOne (save db ?a0) ?k = Some ?a0"
      using findOne_save [OF found, of ?a0] em by simp
    have nl0: "\<not> lockedAt now ?a0" by (simp add: lockedAt_def)
    have u: "unlockExpired now a = ?a0" "unlockExpired now ?a0 = ?a0"
      using le lock by (simp_all add: unlockExpired_def lockExpiredAt_def)
    show "login h P now r iv db (Some e) (Some pw) = login h P now r iv (save db ?a0) (Some e) (Some pw)"
    proof (cases "bcrypt_compare P pw (password a)")
      case False
      then show ?thesis
        using login_wrong [OF found nl given, of P r iv] login_wrong [OF f0 nl0 given, of P r iv] u
        by (simp add: save_save countFailure_def)
    next
      case True
      then show ?thesis
        using le lock given found f0
        by (cases h)
          (simp_all add: login_def loginSuperAdmin_def loginUser_def falsy_def
            lookupKey_def lockedAt_def lockExpiredAt_def Let_def save_save)
    qed
    show "compared (login h P now r iv db (Some e) (Some pw))"
      using login_wrong [OF found nl given, of P r iv] login_right [OF found nl given, of P r iv]
      by (cases "bcrypt_compare P pw (password a)") simp_all
  }
  {
    assume h: "l = t0 + 30 * 60 * 1000 \<and> bcrypt_compare P pw (password a)"
    have locked: "lockedAt (t0 + 29 * 60 * 1000) a" using h lock by (simp add: lockedAt_def)
    have open': "\<not> lockedAt (t0 + 31 * 60 * 1000) a" using h lock by (simp add: lockedAt_def)
    show "status (response (login h P (t0 + 29 * 60 * 1000) r iv db (Some e) (Some pw))) = 423"
      using login_locked [OF found locked given, of P r iv] by (simp add: reply_def)
    show "\<not> compared (login h P (t0 + 29 * 60 * 1000) r iv db (Some e) (Some pw))"
      using login_locked [OF found locked given, of P r iv] by simp
    show "status (response (login h P (t0 + 31 * 60 * 1000) r iv db (Some e) (Some pw))) = 200"
      using login_right [OF found open' given, of P r iv] h by simp
    show "findOne (db_after (login h P (t0 + 31 * 60 * 1000) r iv db (Some e) (Some pw))) (lookupKey h e) =
               Some (a\<lparr>loginAttempts := 0, lockUntil := None, lastLogin := Some (t0 + 31 * 60 * 1000),
                        sessionId := Some (generateSecureToken r)\<rparr>)"
      using login_right [OF found open' given, of P r iv] h findOne_save [OF found, of "a\<lparr>loginAttempts := 0, lockUntil := None, lastLogin := Some (t0 + 31 * 60 * 1000),
                        sessionId := Some (generateSecureToken r)\<rparr>"] em by simp
  }
qed

theorem lockout_expiry_lazy_witness:
  "findOne [demoAdmin\<lparr>loginAttempts := 3, lockUntil := Some 1800000\<rparr>]
     (lookupKey SigninSuperAdmin ''a@x.com'')
     = Some (demoAdmin\<lparr>loginAttempts := 3, lockUntil := Some 1800000\<rparr>)
   \<and> (1800000 :: int) \<le> 1800000
   \<and> bcrypt_compare demoPlatform ''Correct1!''
        (password (demoAdmin\<lparr>loginAttempts := 3, lockUntil := Some 1800000\<rparr>))
   \<and> compared (login SigninSuperAdmin demoPlatform 1800000 [] []
        [demoAdmin\<lparr>loginAttempts := 3, lockUntil := Some 1800000\<rparr>]
        (Some ''a@x.com'') (Some ''Correct1!''))
   \<and> status (response (login SigninSuperAdmin demoPlatform (0 + 29 * 60 * 1000) [] []
        [demoAdmin\<lparr>loginAttempts := 3, lockUntil := Some 1800000\<rparr>]
        (Some ''a@x.com'') (Some ''Correct1!''))) = 423
   \<and> status (response (login SigninSuperAdmin demoPlatform (0 + 31 * 60 * 1000) [] []
        [demoAdmin\<lparr>loginAttempts := 3, lockUntil := Some 1800000\<rparr>]
        (Some ''a@x.com'') (Some ''Correct1!''))) = 200"
proof -
  let ?a = "demoAdmin\<lparr>loginAttempts := 3, lockUntil := Some 1800000\<rparr>"
  have found: "findOne [?a] (lookupKey SigninSuperAdmin ''a@x.com'') = Some ?a"
    by (simp add: findOne_def lookupKey_def demoAdmin_def)
  have lock: "lockUntil ?a = Some 1800000"
    by simp
  have right: "bcrypt_compare demoPlatform ''Correct1!'' (password ?a)"
    by (simp add: demoPlatform_def demoAdmin_def)
  have le: "(1800000 :: int) \<le> 1800000"
    by simp
  have eq: "(1800000 :: int) = 0 + 30 * 60 * 1000"
    by simp
  show ?thesis
    using found le eq right
      lockout_expiry_lazy [OF found lock, of "''Correct1!''" 1800000 demoPlatform "[]" "[]" 0]
    by blast
qed

section \<open>What a rejected sign-in shows\<close>




section \<open>Logout\<close>

text \<open>
  Claim C10 (logout without an identity). When \<^verbatim>\<open>req.user\<close> is absent,
  \<^verbatim>\<open>logoutSuperAdmin\<close> answers 200 "Logout successfully", clears the \<open>accessToken\<close>
  cookie and leaves the collection as it was; the collection changes only when an
  identity is attached.
\<close>

theorem logout_without_identity:
  "logoutSuperAdmin P random32 db None =
     \<lparr>response =
        \<lparr>status = 200,
         body = JObj [(''success'', JBool True), (''message'', JStr ''Logout successfully'')]\<rparr>,
      cookies = [ClearCookie ''accessToken''], db_after = db, compared = False\<rparr>
   \<and> (db_after (logoutSuperAdmin P random32 db req_user) \<noteq> db \<longrightarrow> req_user \<noteq> None)"
  by (auto simp add: logoutSuperAdmin_def split: option.splits if_splits)

theorem logout_without_identity_witness:
  "db_after (logoutSuperAdmin demoPlatform [0x5C] [demoAdmin]
      (Some \<lparr>user_id = doc_id demoAdmin, user_role = ''SUPERADMIN'', user_email = ''a@x.com'',
             user_sessionId = Null\<rparr>)) = [demoAdmin\<lparr>sessionId := Some ''5c''\<rparr>]
   \<and> [demoAdmin\<lparr>sessionId := Some ''5c''\<rparr>] \<noteq> [demoAdmin]
   \<and> Some \<lparr>user_id = doc_id demoAdmin, user_role = ''SUPERADMIN'', user_email = ''a@x.com'',
             user_sessionId = Null\<rparr> \<noteq> None"
  using logout_without_identity [of demoPlatform "[0x5C]" "[demoAdmin]"
      "Some \<lparr>user_id = doc_id demoAdmin, user_role = ''SUPERADMIN'', user_email = ''a@x.com'',
             user_sessionId = Null\<rparr>"]
  by (simp add: logoutSuperAdmin_def demoPlatform_def demoAdmin_def findByIdAndUpdate_sessionId_def
      generateSecureToken_def toHex_def hexDigit_def)

section \<open>Session binding\<close>



section \<open>Disabled accounts\<close>

text \<open>
  Claim C5 as stated fails: \<^verbatim>\<open>loginSuperAdmin\<close> does not read \<open>isActive\<close>. A disabled
  account that signs in with the correct password is answered 200 and is sent a token.
\<close>

theorem disabled_login_counterexample:
  "\<not> isActive (demoAdmin\<lparr>isActive := False\<rparr>)
   \<and> status (response (loginSuperAdmin demoPlatform 0 [0x5C] [1] [demoAdmin\<lparr>isActive := False\<rparr>]
        (Some ''a@x.com'') (Some ''Correct1!''))) = 200
   \<and> cookies (loginSuperAdmin demoPlatform 0 [0x5C] [1] [demoAdmin\<lparr>isActive := False\<rparr>]
        (Some ''a@x.com'') (Some ''Correct1!''))
       = [SetCookie ''accessToken'' ''01.33.000000000000000000000000000000a1'']"
proof -
  let ?a = "demoAdmin\<lparr>isActive := False\<rparr>"
  have found: "findOne [?a] (lookupKey SigninSuperAdmin ''a@x.com'') = Some ?a"
    by (simp add: findOne_def lookupKey_def demoAdmin_def)
  have ok: "\<not> lockedAt 0 ?a" "bcrypt_compare demoPlatform ''Correct1!'' (password ?a)"
    by (simp_all add: lockedAt_def demoAdmin_def demo_fields)
  show ?thesis
    using login_right [OF found ok(1) _ _ ok(2), of "[0x5C]" "[1]"] demo_token
    by (simp add: login_def roleName_def demo_session demoAdmin_def)
qed

text \<open>
  Claim C5, amended. For an account whose \<open>isActive\<close> flag is false, a sign-in with the
  correct email and password is answered 200 and sets the token cookie; the flag takes
  effect at the gate. There no request is admitted as that account, before or after the
  sign-in, and a request whose token verifies to the account and to its new session is
  answered 403 "Account is disabled": the token is not usable.
\<close>

theorem disabled_account:
  assumes acct: "findOne db e = Some a"
    and off: "\<not> isActive a"
    and ok: "\<not> lockedAt t a" "bcrypt_compare P pw (password a)" "e \<noteq> []" "pw \<noteq> []"
  shows "status (response (loginSuperAdmin P t r iv db (Some e) (Some pw))) = 200
       \<and> cookies (loginSuperAdmin P t r iv db (Some e) (Some pw)) =
           [SetCookie ''accessToken''
              (generateEncryptedToken P t iv
                 \<lparr>p_role = ''SUPERADMIN'', p_user_id = doc_id a, p_user_email = email a,
                  p_sessionId = generateSecureToken r\<rparr>)]
       \<and> (user_id ident = doc_id a \<longrightarrow>
            encryptedAuthMiddleware P now (db_after (loginSuperAdmin P t r iv db (Some e) (Some pw))) req
              \<noteq> Next ident)
       \<and> (openRequest P now req = Verified d \<and> c_role d = Some ''SUPERADMIN''
            \<and> c_user_id d = Some (doc_id a) \<and> doc_id a \<noteq> []
            \<and> c_sessionId d = Str (generateSecureToken r)
            \<and> \<not> exceedsMaxLifetime now d \<and> castObjectId P (doc_id a) \<longrightarrow>
            encryptedAuthMiddleware P now (db_after (loginSuperAdmin P t r iv db (Some e) (Some pw))) req
              = Reject (reply 403 ''Account is disabled''))
       \<and> (findById db (doc_id a) = Some a \<and> user_id ident = doc_id a \<longrightarrow>
            encryptedAuthMiddleware P now db req \<noteq> Next ident)"
proof -
  let ?out = "loginSuperAdmin P t r iv db (Some e) (Some pw)"
  let ?a' = "a\<lparr>loginAttempts := 0, lockUntil := None, lastLogin := Some t,
                sessionId := Some (generateSecureToken r)\<rparr>"
  have found: "findOne db (lookupKey SigninSuperAdmin e) = Some a"
    using acct by (simp add: lookupKey_def)
  note lr = login_right [OF found ok(1,3,4,2), of r iv, unfolded login_def roleName_def, simplified]
  have db': "db_after ?out = save db ?a'"
    using lr by simp
  have f: "findById (save db ?a') (doc_id a) = Some ?a'"
    using findOne_mem [OF acct] by (intro findById_save) simp_all
  have never: "encryptedAuthMiddleware P now db0 req \<noteq> Next ident"
    if "findById db0 (user_id ident) = Some u" "\<not> isActive u" for db0 u
    using gate_next [of P now db0 req ident] that by auto
  have c3: "user_id ident = doc_id a \<longrightarrow> encryptedAuthMiddleware P now (db_after ?out) req \<noteq> Next ident"
    unfolding db' using never [of "save db ?a'" ?a'] f off by simp
  have c4: "openRequest P now req = Verified d \<and> c_role d = Some ''SUPERADMIN''
            \<and> c_user_id d = Some (doc_id a) \<and> doc_id a \<noteq> []
            \<and> c_sessionId d = Str (generateSecureToken r)
            \<and> \<not> exceedsMaxLifetime now d \<and> castObjectId P (doc_id a) \<longrightarrow>
            encryptedAuthMiddleware P now (db_after ?out) req = Reject (reply 403 ''Account is disabled'')"
  proof
    assume h: "openRequest P now req = Verified d \<and> c_role d = Some ''SUPERADMIN''
            \<and> c_user_id d = Some (doc_id a) \<and> doc_id a \<noteq> []
            \<and> c_sessionId d = Str (generateSecureToken r)
            \<and> \<not> exceedsMaxLifetime now d \<and> castObjectId P (doc_id a)"
    then show "encryptedAuthMiddleware P now (db_after ?out) req = Reject (reply 403 ''Account is disabled'')"
      unfolding db' using gate_verified [of P now req d "doc_id a" "save db ?a'" ?a'] f off
      by (simp add: sessionDiffers_Some)
  qed
  have c5: "findById db (doc_id a) = Some a \<and> user_id ident = doc_id a \<longrightarrow>
            encryptedAuthMiddleware P now db req \<noteq> Next ident"
    using never [of db a] off by auto
  show ?thesis
    using lr c3 c4 c5 by simp
qed

theorem disabled_account_witness:
  "findOne [demoAdmin\<lparr>isActive := False\<rparr>] ''a@x.com'' = Some (demoAdmin\<lparr>isActive := False\<rparr>)
   \<and> findById [demoAdmin\<lparr>isActive := False\<rparr>] (doc_id (demoAdmin\<lparr>isActive := False\<rparr>))
       = Some (demoAdmin\<lparr>isActive := False\<rparr>)
   \<and> \<not> isActive (demoAdmin\<lparr>isActive := False\<rparr>)
   \<and> bcrypt_compare demoPlatform ''Correct1!'' (password (demoAdmin\<lparr>isActive := False\<rparr>))
   \<and> openRequest demoPlatform 1000 (demoRequest ''01.33.000000000000000000000000000000a1'')
        = Verified (demoClaims ''5c'')
   \<and> status (response (loginSuperAdmin demoPlatform 0 [0x5C] [1] [demoAdmin\<lparr>isActive := False\<rparr>]
        (Some ''a@x.com'') (Some ''Correct1!''))) = 200
   \<and> encryptedAuthMiddleware demoPlatform 1000
        (db_after (loginSuperAdmin demoPlatform 0 [0x5C] [1] [demoAdmin\<lparr>isActive := False\<rparr>]
           (Some ''a@x.com'') (Some ''Correct1!'')))
        (demoRequest ''01.33.000000000000000000000000000000a1'')
       = Reject (reply 403 ''Account is disabled'')
   \<and> encryptedAuthMiddleware demoPlatform 1000
        (db_after (loginSuperAdmin demoPlatform 0 [0x5C] [1] [demoAdmin\<lparr>isActive := False\<rparr>]
           (Some ''a@x.com'') (Some ''Correct1!'')))
        (demoRequest ''01.33.000000000000000000000000000000a1'')
       \<noteq> Next \<lparr>user_id = ''64b7f0c2a1d3e4f5a6b7c8d9'', user_role = ''SUPERADMIN'',
                user_email = ''a@x.com'', user_sessionId = Str ''5c''\<rparr>
   \<and> encryptedAuthMiddleware demoPlatform 1000 [demoAdmin\<lparr>isActive := False\<rparr>]
        (demoRequest ''01.33.000000000000000000000000000000a1'')
       \<noteq> Next \<lparr>user_id = ''64b7f0c2a1d3e4f5a6b7c8d9'', user_role = ''SUPERADMIN'',
                user_email = ''a@x.com'', user_sessionId = Str ''5c''\<rparr>"
proof -
  let ?a = "demoAdmin\<lparr>isActive := False\<rparr>"
  let ?req = "demoRequest ''01.33.000000000000000000000000000000a1''"
  let ?i = "\<lparr>user_id = ''64b7f0c2a1d3e4f5a6b7c8d9'', user_role = ''SUPERADMIN'',
             user_email = ''a@x.com'', user_sessionId = Str ''5c''\<rparr>"
  have acct: "findOne [?a] ''a@x.com'' = Some ?a"
    by (simp add: findOne_def demoAdmin_def)
  have byId: "findById [?a] (doc_id ?a) = Some ?a"
    by (simp add: findById_def)
  have off: "\<not> isActive ?a"
    by simp
  have ok: "\<not> lockedAt 0 ?a" "bcrypt_compare demoPlatform ''Correct1!'' (password ?a)"
      "''a@x.com'' \<noteq> []" "''Correct1!'' \<noteq> []"
    by (simp_all add: lockedAt_def demoAdmin_def demo_fields)
  have h: "openRequest demoPlatform 1000 ?req
        = Verified (demoClaims ''5c'') \<and> c_role (demoClaims ''5c'') = Some ''SUPERADMIN''
      \<and> c_user_id (demoClaims ''5c'') = Some (doc_id ?a) \<and> doc_id ?a \<noteq> []
      \<and> c_sessionId (demoClaims ''5c'') = Str (generateSecureToken [0x5C])
      \<and> \<not> exceedsMaxLifetime 1000 (demoClaims ''5c'') \<and> castObjectId demoPlatform (doc_id ?a)"
    using demo_open_new
    by (simp add: demoClaims_def demoAdmin_def demo_session exceedsMaxLifetime_def demo_fields)
  have who: "user_id ?i = doc_id ?a"
    by (simp add: demoAdmin_def)
  have both: "findById [?a] (doc_id ?a) = Some ?a \<and> user_id ?i = doc_id ?a"
    using byId who by simp
  note t = disabled_account [OF acct off ok, where r = "[0x5C]" and iv = "[1]" and now = 1000
      and req = ?req and d = "demoClaims ''5c''" and ident = ?i]
  show ?thesis
    using acct byId ok(2) demo_open_new t [THEN conjunct1]
      t [THEN conjunct2, THEN conjunct2, THEN conjunct1, rule_format, OF who]
      t [THEN conjunct2, THEN conjunct2, THEN conjunct2, THEN conjunct1, rule_format, OF h]
      t [THEN conjunct2, THEN conjunct2, THEN conjunct2, THEN conjunct2, rule_format, OF both]
    by simp
qed

section \<open>What a rejection shows\<close>




section \<open>Maximum lifetime\<close>

text \<open>
  Claim C9 as stated fails: the lifetime check is not implied by the verification step.
  Ten seconds after its expiry a token is still accepted by \<^verbatim>\<open>jwt.verify\<close>, within the
  clock tolerance, and the gate rejects it for its age.
\<close>

theorem lifetime_redundancy_counterexample:
  "c_iat (demoClaims ''5c'') = Some 0 \<and> c_exp (demoClaims ''5c'') = Some (0 + 24 * 60 * 60)
   \<and> jwt_verify demoPlatform 86410000 [0x32] = Inr (demoClaims ''5c'')
   \<and> exceedsMaxLifetime 86410000 (demoClaims ''5c'')
   \<and> encryptedAuthMiddleware demoPlatform 86410000 [demoAdmin\<lparr>sessionId := Some ''5c''\<rparr>]
        (demoRequest ''01.33.000000000000000000000000000000a1'')
       = Reject (reply 401 ''Token exceeded max lifetime'')"
  by (simp add: jwt_verify_def demo_fields demoClaims_def exceedsMaxLifetime_def
      encryptedAuthMiddleware_def openRequest_def demoRequest_def startsWith_def bearerToken_def
      decryptToken_def unhex_def tag_bytes_demo inRange_def falsy_def)

text \<open>
  Claim C9, amended. The gate rejects a verified token for its age exactly when
  \<open>now - issuedAt > 24 h\<close>. For a token that expires 24 hours after it was issued, as
  \<^verbatim>\<open>generateEncryptedToken\<close> signs it: while the expiry has not passed, the verification step
  accepts the token and so does the lifetime check; during the 30 seconds of clock
  tolerance after the expiry the verification step still accepts it and the lifetime
  check rejects it; after that the verification step throws.
\<close>

theorem max_lifetime_check:
  assumes iat: "c_iat d = Some iat"
  shows "(exceedsMaxLifetime now d \<longleftrightarrow> now - iat * 1000 > 24 * 60 * 60 * 1000)
       \<and> (openRequest P now req = Verified d \<and> \<not> falsy (c_user_id d) \<and> \<not> falsy (c_role d) \<longrightarrow>
            (encryptedAuthMiddleware P now db req = Reject (reply 401 ''Token exceeded max lifetime'')
               \<longleftrightarrow> now - iat * 1000 > 24 * 60 * 60 * 1000))
       \<and> (jwt_decode P (JWT_SECRET P) token = Some d \<and> c_exp d = Some (iat + 24 * 60 * 60) \<longrightarrow>
            (now div 1000 < iat + 24 * 60 * 60 \<longrightarrow>
               jwt_verify P now token = Inr d \<and> \<not> exceedsMaxLifetime now d)
          \<and> ((iat + 24 * 60 * 60) * 1000 < now \<and> now div 1000 < iat + 24 * 60 * 60 + 30 \<longrightarrow>
               jwt_verify P now token = Inr d \<and> exceedsMaxLifetime now d)
          \<and> (iat + 24 * 60 * 60 + 30 \<le> now div 1000 \<longrightarrow>
               jwt_verify P now token = Inl TokenExpiredError))"
proof (intro conjI impI)
  show e: "exceedsMaxLifetime now d \<longleftrightarrow> now - iat * 1000 > 24 * 60 * 60 * 1000"
    using iat by (rule exceeds_iff)
  {
    assume h: "openRequest P now req = Verified d \<and> \<not> falsy (c_user_id d) \<and> \<not> falsy (c_role d)"
    have ne: "reply 401 ''Token exceeded max lifetime'' \<noteq> reply c m"
      if "m \<noteq> ''Token exceeded max lifetime''" for c m
      using that by (simp add: reply_def)
    show "(encryptedAuthMiddleware P now db req = Reject (reply 401 ''Token exceeded max lifetime''))
        = (now - iat * 1000 > 24 * 60 * 60 * 1000)"
      unfolding e [symmetric] using h
      by (auto simp: encryptedAuthMiddleware_def reply_def split: option.splits)
  }
  {
    assume h: "jwt_decode P (JWT_SECRET P) token = Some d \<and> c_exp d = Some (iat + 24 * 60 * 60)"
    {
      assume b: "now div 1000 < iat + 24 * 60 * 60"
      show "jwt_verify P now token = Inr d"
        using h b by (simp add: jwt_verify_def)
      show "\<not> exceedsMaxLifetime now d"
        unfolding e using b by linarith
    }
    {
      assume w: "(iat + 24 * 60 * 60) * 1000 < now \<and> now div 1000 < iat + 24 * 60 * 60 + 30"
      show "jwt_verify P now token = Inr d"
        using h w by (simp add: jwt_verify_def)
      show "exceedsMaxLifetime now d"
        unfolding e using w by simp
    }
    {
      assume x: "iat + 24 * 60 * 60 + 30 \<le> now div 1000"
      show "jwt_verify P now token = Inl TokenExpiredError"
        using h x by (simp add: jwt_verify_def)
    }
  }
qed

theorem max_lifetime_check_witness:
  "c_iat (demoClaims ''5c'') = Some 0
   \<and> jwt_decode demoPlatform (JWT_SECRET demoPlatform) [0x32] = Some (demoClaims ''5c'')
   \<and> c_exp (demoClaims ''5c'') = Some (0 + 24 * 60 * 60)
   \<and> (1000 :: int) div 1000 < 0 + 24 * 60 * 60
   \<and> jwt_verify demoPlatform 1000 [0x32] = Inr (demoClaims ''5c'')
   \<and> \<not> exceedsMaxLifetime 1000 (demoClaims ''5c'')
   \<and> (0 + 24 * 60 * 60) * 1000 < (86410000 :: int)
   \<and> (86410000 :: int) div 1000 < 0 + 24 * 60 * 60 + 30
   \<and> jwt_verify demoPlatform 86410000 [0x32] = Inr (demoClaims ''5c'')
   \<and> exceedsMaxLifetime 86410000 (demoClaims ''5c'')
   \<and> 0 + 24 * 60 * 60 + 30 \<le> (86430000 :: int) div 1000
   \<and> jwt_verify demoPlatform 86430000 [0x32] = Inl TokenExpiredError
   \<and> openRequest demoPlatform 1000 (demoRequest ''01.33.000000000000000000000000000000a1'')
       = Verified (demoClaims ''5c'')
   \<and> encryptedAuthMiddleware demoPlatform 1000 [demoAdmin]
        (demoRequest ''01.33.000000000000000000000000000000a1'')
       \<noteq> Reject (reply 401 ''Token exceeded max lifetime'')"
proof -
  let ?d = "demoClaims ''5c''"
  let ?req = "demoRequest ''01.33.000000000000000000000000000000a1''"
  have iat: "c_iat ?d = Some 0"
    by (simp add: demoClaims_def)
  have dec: "jwt_decode demoPlatform (JWT_SECRET demoPlatform) [0x32] = Some ?d
      \<and> c_exp ?d = Some (0 + 24 * 60 * 60)"
    by (simp add: demo_fields demoClaims_def)
  have early: "(1000 :: int) div 1000 < 0 + 24 * 60 * 60"
    by simp
  have window: "(0 + 24 * 60 * 60) * 1000 < (86410000 :: int)
      \<and> (86410000 :: int) div 1000 < 0 + 24 * 60 * 60 + 30"
    by simp
  have opened: "openRequest demoPlatform 1000 ?req = Verified ?d
      \<and> \<not> falsy (c_user_id ?d) \<and> \<not> falsy (c_role ?d)"
    using demo_open_new by (simp add: demoClaims_def falsy_def)
  have young: "\<not> (24 * 60 * 60 * 1000 < (1000 :: int) - 0 * 1000)"
    by simp
  note a = max_lifetime_check [OF iat, where now = 1000 and P = demoPlatform and req = ?req
      and db = "[demoAdmin]" and token = "[0x32]"]
  note b = max_lifetime_check [OF iat, where now = 86410000 and P = demoPlatform and req = ?req
      and db = "[demoAdmin]" and token = "[0x32]"]
  note c = max_lifetime_check [OF iat, where now = 86430000 and P = demoPlatform and req = ?req
      and db = "[demoAdmin]" and token = "[0x32]"]
  have late: "0 + 24 * 60 * 60 + 30 \<le> (86430000 :: int) div 1000"
    by simp
  show ?thesis
    using iat dec early window late opened young
      c [THEN conjunct2, THEN conjunct2, rule_format, OF dec, THEN conjunct2, THEN conjunct2,
         rule_format, OF late]
      a [THEN conjunct2, THEN conjunct1, rule_format, OF opened]
      a [THEN conjunct2, THEN conjunct2, rule_format, OF dec, THEN conjunct1, rule_format, OF early]
      b [THEN conjunct2, THEN conjunct2, rule_format, OF dec, THEN conjunct2, THEN conjunct1,
         rule_format, OF window]
    by blast
qed

section \<open>The envelope and the token, there and back\<close>




section \<open>Tampering with a sealed envelope\<close>




end
